theory Spec2Isabelle
  imports Main "HOL-Library.Sublist"
begin

text \<open>
  The core of the code splitter (\<open>splitter_core.py\<close>): the extraction of the top-level
  declarations of a parsed module, the dependency analysis, the planning and emission
  of the partition units, the residual file, and the three validation stages. The
  functions are embedded as HOL functions that compute what the Python computes; the
  parser, the file system and the module loader of the host runtime appear as inputs.
\<close>

section \<open>Python strings\<close>

text \<open>
  A Python \<open>str\<close> is a \<^typ>\<open>string\<close>; a character stands for a code point below 256.
  The few \<open>str\<close> methods the splitter calls are written out below.
\<close>

definition NL :: string where
  "NL = [CHR 0x0A]"

definition dq3 :: string where
  "dq3 = [CHR 0x22, CHR 0x22, CHR 0x22]"

definition sq3 :: string where
  "sq3 = [CHR 0x27, CHR 0x27, CHR 0x27]"

text \<open>\<open>sep.join(xs)\<close>\<close>

fun join :: "string \<Rightarrow> string list \<Rightarrow> string" where
  "join sep [] = []"
| "join sep [x] = x"
| "join sep (x # y # ys) = x @ sep @ join sep (y # ys)"

text \<open>\<open>s.startswith(p)\<close>, \<open>s.endswith(p)\<close> and \<open>p in s\<close>.\<close>

definition startswith :: "string \<Rightarrow> string \<Rightarrow> bool" where
  "startswith s p = prefix p s"

definition endswith :: "string \<Rightarrow> string \<Rightarrow> bool" where
  "endswith s p = suffix p s"

definition contains :: "string \<Rightarrow> string \<Rightarrow> bool" where
  "contains s p = sublist p s"

text \<open>
  \<open>str.isspace\<close> on the code points below 256, and \<open>s.strip()\<close>: leading and trailing
  whitespace removed.
\<close>

definition isspace :: "char \<Rightarrow> bool" where
  "isspace c = List.member
     [CHR 0x20, CHR 0x09, CHR 0x0A, CHR 0x0B, CHR 0x0C, CHR 0x0D,
      CHR 0x1C, CHR 0x1D, CHR 0x1E, CHR 0x1F, CHR 0x85, CHR 0xA0] c"

definition strip :: "string \<Rightarrow> string" where
  "strip s = rev (dropWhile isspace (rev (dropWhile isspace s)))"

text \<open>\<open>s.count(sub)\<close>: the number of non-overlapping occurrences, scanning from the left.\<close>

function count_sub :: "string \<Rightarrow> string \<Rightarrow> nat" where
  "count_sub s sub =
     (if sub = [] then Suc (length s)
      else if s = [] then 0
      else if prefix sub s then Suc (count_sub (drop (length sub) s) sub)
      else count_sub (tl s) sub)"
  by pat_completeness auto
termination
  by (relation "measure (\<lambda>(s, sub). length s)") auto

declare count_sub.simps [simp del]

text \<open>\<open>s.replace(old, new)\<close>: every non-overlapping occurrence, scanning from the left.\<close>

function replace :: "string \<Rightarrow> string \<Rightarrow> string \<Rightarrow> string" where
  "replace s old new =
     (if old = [] then new @ concat (map (\<lambda>c. c # new) s)
      else if s = [] then []
      else if prefix old s then new @ replace (drop (length old) s) old new
      else hd s # replace (tl s) old new)"
  by pat_completeness auto
termination
  by (relation "measure (\<lambda>(s, old, new). length s)") auto

declare replace.simps [simp del]

text \<open>
  \<open>s.lower()\<close> on the code points below 256: the letters \<open>A\<close> to \<open>Z\<close> and the
  accented capitals from 192 to 222 (215, the multiplication sign, is no letter).
\<close>

definition lower_char :: "char \<Rightarrow> char" where
  "lower_char c =
     (let k = (of_char c :: nat)
      in if (65 \<le> k \<and> k \<le> 90) \<or> (192 \<le> k \<and> k \<le> 222 \<and> k \<noteq> 215)
         then char_of (k + 32) else c)"

definition lower :: "string \<Rightarrow> string" where
  "lower s = map lower_char s"


section \<open>The parsed module\<close>

text \<open>
  \<open>ast.parse\<close> is the host runtime's parser and is not part of the repository. A parsed
  module is the list \<open>tree.body\<close> of its top-level statements; of each statement the
  record keeps what the splitter reads: the node class, \<open>name\<close> (of a definition),
  \<open>lineno\<close>, \<open>end_lineno\<close> (which may be \<open>None\<close>), the line numbers of the decorators,
  the identifiers \<open>UsedNamesCollector\<close> gathers below the node (every \<open>Name\<close> in
  \<open>Load\<close> context, listed in the iteration order of the Python set), the text
  \<open>ast.unparse\<close> gives, and the value of the statement when it is an expression
  statement holding a string constant.
\<close>

datatype stmt_kind = ClassDef | FunctionDef | AsyncFunctionDef | Import | ImportFrom | Other

record stmt =
  kind :: stmt_kind
  name :: string
  lineno :: nat
  end_lineno :: "nat option"
  decorator_list :: "nat list"
  used_names :: "string list"
  unparse :: string
  str_const :: "string option"

text \<open>A declaration as \<open>find_top_level_defs\<close> returns it: \<open>(name, start_line, end_lineno)\<close>.\<close>

type_synonym decl = "string \<times> nat \<times> nat option"

datatype parse_result = SyntaxError string | Module "stmt list"

text \<open>
  The source file: its lines (\<open>code.splitlines()\<close>) and what \<open>ast.parse(code)\<close> does on it.
\<close>

record source =
  code_lines :: "string list"
  ast_parse :: parse_result

text \<open>
  \<open>parse_script\<close>: after a \<open>SyntaxError\<close> it prints a diagnostic that carries the
  parser's message and returns \<open>None\<close> (here \<open>Inl\<close> of the message); otherwise it returns
  the lines and the tree.
\<close>

definition parse_script :: "source \<Rightarrow> string + (string list \<times> stmt list)" where
  "parse_script src =
     (case ast_parse src of
        SyntaxError e \<Rightarrow> Inl e
      | Module body \<Rightarrow> Inr (code_lines src, body))"

definition start_line :: "stmt \<Rightarrow> nat" where
  "start_line s =
     (case decorator_list s of
        [] \<Rightarrow> lineno s
      | d # ds \<Rightarrow> min (lineno s) d)"

definition find_top_level_defs :: "stmt list \<Rightarrow> decl list \<times> decl list" where
  "find_top_level_defs body =
     (map (\<lambda>s. (name s, start_line s, end_lineno s)) (filter (\<lambda>s. kind s = ClassDef) body),
      map (\<lambda>s. (name s, start_line s, end_lineno s)) (filter (\<lambda>s. kind s = FunctionDef) body))"

definition classes_of :: "stmt list \<Rightarrow> decl list" where
  "classes_of body = fst (find_top_level_defs body)"

definition functions_of :: "stmt list \<Rightarrow> decl list" where
  "functions_of body = snd (find_top_level_defs body)"

fun get_occupied_lines :: "decl list \<Rightarrow> nat set" where
  "get_occupied_lines [] = {}"
| "get_occupied_lines ((n, start, en) # ds) =
     (case en of None \<Rightarrow> {} | Some e \<Rightarrow> {start..e}) \<union> get_occupied_lines ds"

definition get_imports :: "stmt list \<Rightarrow> string list" where
  "get_imports body = map unparse (filter (\<lambda>s. kind s = Import \<or> kind s = ImportFrom) body)"

text \<open>
  \<open>extract_code\<close>: the slice \<open>lines[start - 1:end]\<close> joined by newlines. For \<open>start = 0\<close>
  the lower index is \<open>-1\<close>, which Python counts from the end of the list.
\<close>

definition extract_code :: "string list \<Rightarrow> nat \<Rightarrow> nat \<Rightarrow> string" where
  "extract_code lines start en =
     (let lo = (if start = 0 then length lines - 1 else start - 1)
      in join NL (take (en - lo) (drop lo lines)))"

section \<open>Dependency analysis\<close>

type_synonym bucket = "string list \<times> string list"

text \<open>
  \<open>analyze_dependencies\<close>. \<open>class_used\<close> is a dictionary keyed by class name, so a later
  class of the same name replaces the entry of an earlier one. The two sets
  \<open>func_used_classes\<close> and \<open>top_used\<close> are lists without repetitions here; their order
  stands for the iteration order of the Python set.
\<close>

definition class_bucket :: "string list \<Rightarrow> string list \<Rightarrow> stmt \<Rightarrow> bucket" where
  "class_bucket class_names function_names s =
     (filter (\<lambda>n. n \<in> set class_names \<and> n \<noteq> name s) (used_names s),
      filter (\<lambda>n. n \<in> set function_names) (used_names s))"

definition class_used_of :: "stmt list \<Rightarrow> string list \<Rightarrow> string list \<Rightarrow> (string \<rightharpoonup> bucket)" where
  "class_used_of body class_names function_names =
     fold (\<lambda>s m. if kind s = ClassDef then m(name s \<mapsto> class_bucket class_names function_names s) else m)
       body Map.empty"

definition func_used_classes_of :: "stmt list \<Rightarrow> string list \<Rightarrow> string list" where
  "func_used_classes_of body class_names =
     remdups (concat (map (\<lambda>s. filter (\<lambda>n. n \<in> set class_names) (used_names s))
                (filter (\<lambda>s. kind s = FunctionDef) body)))"

definition top_used_of :: "stmt list \<Rightarrow> string list" where
  "top_used_of body =
     remdups (concat (map used_names
       (filter (\<lambda>s. kind s \<noteq> ClassDef \<and> kind s \<noteq> FunctionDef \<and> kind s \<noteq> Import \<and> kind s \<noteq> ImportFrom)
          body)))"

definition analyze_dependencies ::
  "stmt list \<Rightarrow> string list \<Rightarrow> string list \<Rightarrow>
     (string \<rightharpoonup> bucket) \<times> string list \<times> string list \<times> string list" where
  "analyze_dependencies body class_names function_names =
     (class_used_of body class_names function_names,
      func_used_classes_of body class_names,
      filter (\<lambda>n. n \<in> set class_names) (top_used_of body),
      filter (\<lambda>n. n \<in> set function_names) (top_used_of body))"

section \<open>The grouping configuration\<close>

text \<open>
  The configuration is the dictionary \<open>json.load\<close> returns. \<open>modules\<close> is the value of its
  key \<open>"modules"\<close> when it has one: the groups in the order of the file, each with the
  lists under \<open>"classes"\<close> and \<open>"functions"\<close> (an absent key reads as the empty list, as
  \<open>.get(key, [])\<close> does). A dictionary is true in a condition when it has a key.
\<close>

record module_items =
  item_classes :: "string list"
  item_functions :: "string list"

record config =
  modules :: "(string \<times> module_items) list option"
  other_keys :: bool

definition config_modules :: "config \<Rightarrow> (string \<times> module_items) list" where
  "config_modules c = (case modules c of None \<Rightarrow> [] | Some ms \<Rightarrow> ms)"

text \<open>\<open>if config:\<close> for the optional dictionary.\<close>

definition config_on :: "config option \<Rightarrow> bool" where
  "config_on cfg = (case cfg of None \<Rightarrow> False | Some c \<Rightarrow> modules c \<noteq> None \<or> other_keys c)"

definition cfg_modules :: "config option \<Rightarrow> (string \<times> module_items) list" where
  "cfg_modules cfg = (case cfg of None \<Rightarrow> [] | Some c \<Rightarrow> config_modules c)"

section \<open>The residual file\<close>

text \<open>
  \<open>_extract_module_docstring\<close> parses the code again and looks at the first statement;
  the second parse gives the tree the first gave, so the function takes the tree.
\<close>

definition extract_module_docstring :: "stmt list \<Rightarrow> string option" where
  "extract_module_docstring body =
     (case body of
        [] \<Rightarrow> None
      | s # ss \<Rightarrow> (case str_const s of None \<Rightarrow> None | Some v \<Rightarrow> Some (dq3 @ v @ dq3)))"

text \<open>The names that are split out, and the declarations that are not.\<close>

definition split_classes_of :: "config option \<Rightarrow> string list \<Rightarrow> string list" where
  "split_classes_of cfg class_names =
     (if config_on cfg then concat (map (\<lambda>(m, items). item_classes items) (cfg_modules cfg))
      else class_names)"

definition split_functions_of :: "config option \<Rightarrow> string list \<Rightarrow> string list" where
  "split_functions_of cfg function_names =
     (if config_on cfg then concat (map (\<lambda>(m, items). item_functions items) (cfg_modules cfg))
      else function_names)"

definition remaining :: "string list \<Rightarrow> decl list \<Rightarrow> decl list" where
  "remaining split ds = filter (\<lambda>(n, start, en). n \<notin> set split) ds"

text \<open>The lines outside every declaration, in order.\<close>

definition free_lines :: "string list \<Rightarrow> nat set \<Rightarrow> string list" where
  "free_lines lines occupied =
     map (\<lambda>i. lines ! (i - 1)) (filter (\<lambda>i. i \<notin> occupied) [1..<Suc (length lines)])"

text \<open>
  One round of the loop that filters the free lines: the state is
  \<open>(in_module_docstring, docstring_quotes, top_level_code)\<close>.
\<close>

type_synonym scan_state = "bool \<times> string option \<times> string list"

definition scan_line :: "string \<Rightarrow> scan_state \<Rightarrow> scan_state" where
  "scan_line line st =
     (case st of (in_doc, quotes, acc) \<Rightarrow>
        (let stripped = strip line in
         if \<not> in_doc \<and> (startswith stripped dq3 \<or> startswith stripped sq3) then
           (if count_sub stripped (take 3 stripped) = 2
            then (in_doc, Some (take 3 stripped), acc)
            else (True, Some (take 3 stripped), acc))
         else if in_doc \<and> (case quotes of None \<Rightarrow> False | Some q \<Rightarrow> q \<noteq> [] \<and> endswith stripped q)
           then (False, quotes, acc)
         else if in_doc then (in_doc, quotes, acc)
         else if acc = [] \<and> stripped = [] then (in_doc, quotes, acc)
         else (in_doc, quotes, acc @ [line])))"

definition filter_top_level :: "string list \<Rightarrow> nat set \<Rightarrow> string list" where
  "filter_top_level lines occupied =
     snd (snd (fold scan_line (free_lines lines occupied) (False, None, [])))"

text \<open>The source slices of the declarations that have an end line, each followed by an empty part.\<close>

definition decl_parts :: "string list \<Rightarrow> decl list \<Rightarrow> string list" where
  "decl_parts lines ds =
     concat (map (\<lambda>(n, start, en). case en of None \<Rightarrow> [] | Some e \<Rightarrow> [extract_code lines start e, []]) ds)"

text \<open>\<open>while "\n\n\n" in result: result = result.replace("\n\n\n", "\n\n")\<close>\<close>

function collapse_blank :: "string \<Rightarrow> string" where
  "collapse_blank r =
     (if contains r (NL @ NL @ NL) then collapse_blank (replace r (NL @ NL @ NL) (NL @ NL)) else r)"
  by pat_completeness auto
termination
proof (relation "measure length")
  show "wf (measure (length :: string \<Rightarrow> nat))" by simp
next
  fix r :: string
  assume c: "contains r (NL @ NL @ NL)"
  define old where "old = NL @ NL @ NL"
  define new where "new = NL @ NL"
  have ne: "old \<noteq> []" and len: "length new < length old"
    by (simp_all add: old_def new_def NL_def)
  have step: "replace s old new = new @ replace (drop (length old) s) old new"
    if "prefix old s" for s
  proof -
    from that ne have "s \<noteq> []" by auto
    with that ne show ?thesis by (subst replace.simps) simp
  qed
  have skip: "replace (a # s) old new = a # replace s old new"
    if "\<not> prefix old (a # s)" for a s
    using that ne by (subst replace.simps) simp
  have le: "length (replace s old new) \<le> length s" for s
  proof (induction s rule: length_induct)
    case (1 s)
    show ?case
    proof (cases s)
      case Nil
      then show ?thesis using ne by (subst replace.simps) simp
    next
      case (Cons a t)
      show ?thesis
      proof (cases "prefix old s")
        case True
        then have l: "length old \<le> length s" by (rule prefix_length_le)
        have "length (drop (length old) s) < length s"
          using ne l Cons by simp
        then have "length (replace (drop (length old) s) old new) \<le> length (drop (length old) s)"
          using 1 by blast
        then show ?thesis using step[OF True] len l by simp
      next
        case False
        have "length (replace t old new) \<le> length t" using 1 Cons by simp
        then show ?thesis using skip False Cons by simp
      qed
    qed
  qed
  have lt: "sublist old s \<Longrightarrow> length (replace s old new) < length s" for s
  proof (induction s)
    case Nil
    then show ?case using ne by simp
  next
    case (Cons a s)
    show ?case
    proof (cases "prefix old (a # s)")
      case True
      then have l: "length old \<le> length (a # s)" by (rule prefix_length_le)
      have "length (replace (drop (length old) (a # s)) old new) \<le> length (drop (length old) (a # s))"
        by (rule le)
      then show ?thesis using step[OF True] len l by simp
    next
      case False
      then have "sublist old s"
        using Cons.prems ne by (cases old) (auto simp add: sublist_Cons_right)
      then have "length (replace s old new) < length s"
        by (rule Cons.IH)
      then show ?thesis using skip[OF False] by simp
    qed
  qed
  show "(replace r (NL @ NL @ NL) (NL @ NL), r) \<in> measure length"
    using lt c by (simp add: contains_def old_def new_def)
qed

declare collapse_blank.simps [simp del]

text \<open>
  The first branch of \<open>create_shrunk_original\<close>, taken when no declaration remains: the
  docstring (or the synthesized one), the imports, and one import line per split unit.
\<close>

definition minimal_parts ::
  "stmt list \<Rightarrow> string list \<Rightarrow> config option \<Rightarrow> string list \<Rightarrow> string list \<Rightarrow> string list" where
  "minimal_parts body imports cfg class_names function_names =
     (case extract_module_docstring body of
        Some d \<Rightarrow> [d, []]
      | None \<Rightarrow>
          [dq3,
           ''Main module - classes have been split into separate files.'',
           ''Import from the individual modules or use the __init__.py for convenience.'',
           dq3, []])
     @ (if imports \<noteq> [] then imports @ [[]] else [])
     @ (if config_on cfg
        then map (\<lambda>(module_name, items). ''from .'' @ module_name @ '' import *'') (cfg_modules cfg)
        else map (\<lambda>class_name. ''from .'' @ class_name @ '' import '' @ class_name) class_names
             @ (if function_names \<noteq> []
                then [''from .functions import '' @ join '', '' function_names] else []))"

text \<open>
  The second branch: the imports, the declarations that remain, and the filtered free
  lines (a leading run of lines that start with three double quotes is dropped).
\<close>

definition retained_parts ::
  "string list \<Rightarrow> string list \<Rightarrow> decl list \<Rightarrow> decl list \<Rightarrow> decl list \<Rightarrow> decl list \<Rightarrow> string list" where
  "retained_parts lines imports classes functions remaining_classes remaining_functions =
     (if imports \<noteq> [] then imports @ [[]] else [])
     @ decl_parts lines remaining_classes
     @ decl_parts lines remaining_functions
     @ dropWhile (\<lambda>line. startswith (strip line) dq3)
         (filter_top_level lines (get_occupied_lines (classes @ functions)))"

text \<open>
  The end of the second branch: runs of blank lines are collapsed, and the stripped
  text gets one final newline (an empty text stays empty).
\<close>

definition tidy :: "string \<Rightarrow> string" where
  "tidy joined =
     (let result = collapse_blank joined
      in if strip result \<noteq> [] then strip result @ NL else [])"

definition create_shrunk_original ::
  "stmt list \<Rightarrow> string list \<Rightarrow> string list \<Rightarrow> decl list \<Rightarrow> decl list \<Rightarrow> config option \<Rightarrow>
     string list \<Rightarrow> string list \<Rightarrow> string" where
  "create_shrunk_original body lines imports classes functions cfg class_names function_names =
     (let remaining_classes = remaining (split_classes_of cfg class_names) classes;
          remaining_functions = remaining (split_functions_of cfg function_names) functions
      in if remaining_classes = [] \<and> remaining_functions = []
         then join NL (minimal_parts body imports cfg class_names function_names) @ NL
         else tidy (join NL
                (retained_parts lines imports classes functions remaining_classes remaining_functions)))"

text \<open>The declarations whose text the residual file keeps.\<close>

definition residual_members ::
  "config option \<Rightarrow> decl list \<Rightarrow> decl list \<Rightarrow> string list \<Rightarrow> string list \<Rightarrow> decl list" where
  "residual_members cfg classes functions class_names function_names =
     filter (\<lambda>(n, start, en). en \<noteq> None)
       (remaining (split_classes_of cfg class_names) classes
        @ remaining (split_functions_of cfg function_names) functions)"

section \<open>Partition units\<close>

text \<open>
  A partition unit is one file of the new package: its module name, the declarations
  whose source slices are written into it, and its text.
\<close>

record partition_unit =
  unit_name :: string
  members :: "decl list"
  content :: string

datatype py_error = KeyError string

text \<open>The synthesized import lines of a class unit, from the class's two buckets.\<close>

definition class_import_lines :: "bucket \<Rightarrow> string list" where
  "class_import_lines b =
     map (\<lambda>uc. ''from .'' @ uc @ '' import '' @ uc @ NL) (fst b)
     @ (if snd b \<noteq> [] then [''from .functions import '' @ join '', '' (snd b) @ NL] else [])"

definition class_unit_content :: "string list \<Rightarrow> string list \<Rightarrow> bucket \<Rightarrow> nat \<Rightarrow> nat \<Rightarrow> string" where
  "class_unit_content imports lines b start e =
     join NL imports @ NL @ concat (class_import_lines b) @ NL @ extract_code lines start e"

text \<open>
  Default mode, the loop over the classes. \<open>class_used[cname]\<close> raises \<open>KeyError\<close> for a
  missing key; the units written before it stay written.
\<close>

fun class_units ::
  "string list \<Rightarrow> string list \<Rightarrow> (string \<rightharpoonup> bucket) \<Rightarrow> decl list \<Rightarrow>
     partition_unit list \<times> py_error option" where
  "class_units imports lines class_used [] = ([], None)"
| "class_units imports lines class_used ((cname, start, en) # ds) =
     (case en of
        None \<Rightarrow> class_units imports lines class_used ds
      | Some e \<Rightarrow>
          (case class_used cname of
             None \<Rightarrow> ([], Some (KeyError cname))
           | Some b \<Rightarrow>
               (let u = \<lparr>unit_name = cname, members = [(cname, start, en)],
                         content = class_unit_content imports lines b start e\<rparr>;
                    rest = class_units imports lines class_used ds
                in (u # fst rest, snd rest))))"

text \<open>The source slices of a unit that holds several declarations, each followed by an empty line.\<close>

definition slices :: "string list \<Rightarrow> decl list \<Rightarrow> string" where
  "slices lines ds =
     concat (map (\<lambda>(n, start, en). case en of None \<Rightarrow> [] | Some e \<Rightarrow> extract_code lines start e @ NL @ NL) ds)"

definition functions_unit :: "string list \<Rightarrow> string list \<Rightarrow> string list \<Rightarrow> decl list \<Rightarrow> partition_unit" where
  "functions_unit imports lines func_used functions =
     (let ms = filter (\<lambda>(n, start, en). en \<noteq> None) functions
      in \<lparr>unit_name = ''functions'', members = ms,
          content = join NL imports @ NL
            @ concat (map (\<lambda>uc. ''from .'' @ uc @ '' import '' @ uc @ NL) func_used)
            @ NL @ slices lines ms\<rparr>)"

text \<open>
  Config mode: for each listed name that the source declares, the first declaration of
  that name that has an end line.
\<close>

definition pick :: "decl list \<Rightarrow> string list \<Rightarrow> string list \<Rightarrow> decl list" where
  "pick ds names listed =
     List.map_filter
       (\<lambda>x. if x \<in> set names then find (\<lambda>(n, start, en). n = x \<and> en \<noteq> None) ds else None)
       listed"

definition module_unit ::
  "string list \<Rightarrow> string list \<Rightarrow> decl list \<Rightarrow> decl list \<Rightarrow> string list \<Rightarrow> string list \<Rightarrow>
     string \<times> module_items \<Rightarrow> partition_unit" where
  "module_unit imports lines classes functions class_names function_names m =
     (let ms = pick classes class_names (item_classes (snd m))
               @ pick functions function_names (item_functions (snd m))
      in \<lparr>unit_name = fst m, members = ms, content = join NL imports @ NL @ slices lines ms\<rparr>)"

text \<open>The units of a run, in the order they are written.\<close>

definition plan_units ::
  "config option \<Rightarrow> string list \<Rightarrow> string list \<Rightarrow> (string \<rightharpoonup> bucket) \<Rightarrow> string list \<Rightarrow>
     decl list \<Rightarrow> decl list \<Rightarrow> string list \<Rightarrow> string list \<Rightarrow> partition_unit list \<times> py_error option" where
  "plan_units cfg imports lines class_used func_used classes functions class_names function_names =
     (if config_on cfg
      then (map (module_unit imports lines classes functions class_names function_names) (cfg_modules cfg),
            None)
      else (case class_units imports lines class_used classes of
              (us, Some err) \<Rightarrow> (us, Some err)
            | (us, None) \<Rightarrow>
                (us @ (if functions \<noteq> [] then [functions_unit imports lines func_used functions] else []),
                 None)))"

section \<open>The other emitted files\<close>

definition main_content :: "string list \<Rightarrow> string list \<Rightarrow> string list \<Rightarrow> string list \<Rightarrow> string" where
  "main_content imports top_used_cls top_used_fn top_level_code =
     join NL imports @ NL
     @ concat (map (\<lambda>uc. ''from .'' @ uc @ '' import '' @ uc @ NL) top_used_cls)
     @ (if top_used_fn \<noteq> [] then ''from .functions import '' @ join '', '' top_used_fn @ NL else [])
     @ NL @ join NL top_level_code"

definition init_content :: "config option \<Rightarrow> string list \<Rightarrow> string list \<Rightarrow> string" where
  "init_content cfg class_names function_names =
     (if config_on cfg
      then concat (map (\<lambda>(module_name, items). ''from .'' @ module_name @ '' import *'' @ NL) (cfg_modules cfg))
      else concat (map (\<lambda>cname. ''from .'' @ cname @ '' import '' @ cname @ NL) class_names)
           @ (if function_names \<noteq> []
              then ''from .functions import '' @ join '', '' function_names @ NL else []))"

definition create_interface_file :: "string \<Rightarrow> string list \<Rightarrow> string list \<Rightarrow> config option \<Rightarrow> string" where
  "create_interface_file base_name class_names function_names cfg =
     join NL
       ([dq3,
         ''Interface module for '' @ base_name @ ''.'',
         [],
         ''This file provides a clean interface to all classes and functions'',
         ''that were split into separate modules. Import from this file'',
         ''to maintain compatibility with existing code.'',
         dq3,
         []]
        @ (if config_on cfg
           then concat (map (\<lambda>(module_name, items).
                   if item_classes items \<noteq> [] \<or> item_functions items \<noteq> []
                   then [''from .'' @ base_name @ ''.'' @ module_name @ '' import ''
                           @ join '', '' (item_classes items @ item_functions items)]
                   else []) (cfg_modules cfg))
           else map (\<lambda>class_name. ''from .'' @ base_name @ ''.'' @ class_name @ '' import '' @ class_name)
                  class_names
                @ (if function_names \<noteq> []
                   then [''from .'' @ base_name @ ''.functions import '' @ join '', '' function_names]
                   else []))
        @ [[]]
        @ (if class_names @ function_names \<noteq> []
           then [''__all__ = [''] @ map (\<lambda>export. ''    '' @ [CHR 0x22] @ export @ [CHR 0x22] @ '','')
                                      (class_names @ function_names) @ ['']'']
           else []))
     @ NL"

section \<open>The split\<close>

text \<open>
  The effects of a run on the file system, in order: the backup copy of the input, the
  creation of the package folder, a file written into the package folder (its file
  name and text), and the interface file written beside the folder. \<open>format_code\<close>
  leaves a file as written when the optional formatter is not installed (its
  \<open>ImportError\<close> branch); the run is modelled there.
\<close>

datatype fs_event =
  Copy_backup
  | Makedirs
  | Write_unit string string
  | Write_interface string

datatype outcome = Config_error | Syntax_abort string | Raised py_error | Emitted

record run =
  events :: "fs_event list"
  outcome :: outcome

text \<open>
  \<open>parse_config\<close> on the optional path: no path given, a file that is missing or is not
  JSON (the function prints a diagnostic and returns \<open>None\<close>), or the dictionary.
\<close>

datatype config_input = No_config_path | Config_unreadable | Config_loaded config

definition emit_units :: "partition_unit list \<Rightarrow> fs_event list" where
  "emit_units us = map (\<lambda>u. Write_unit (unit_name u @ ''.py'') (content u)) us"

text \<open>
  \<open>write_split_files\<close> after a successful parse, up to the call of the validation
  pipeline (which writes nothing into the output tree; its stages follow below).
\<close>

definition units_of :: "string list \<Rightarrow> stmt list \<Rightarrow> config option \<Rightarrow> partition_unit list \<times> py_error option" where
  "units_of lines body cfg =
     (let class_names = map fst (classes_of body);
          function_names = map fst (functions_of body);
          deps = analyze_dependencies body class_names function_names
      in plan_units cfg (get_imports body) lines (fst deps) (fst (snd deps))
           (classes_of body) (functions_of body) class_names function_names)"

definition residual_of :: "string list \<Rightarrow> stmt list \<Rightarrow> config option \<Rightarrow> string" where
  "residual_of lines body cfg =
     create_shrunk_original body lines (get_imports body) (classes_of body) (functions_of body) cfg
       (map fst (classes_of body)) (map fst (functions_of body))"

text \<open>The free lines of the module, the text of \<open>main.py\<close>, of \<open>__init__.py\<close> and of the interface file.\<close>

definition top_level_code_of :: "string list \<Rightarrow> stmt list \<Rightarrow> string list" where
  "top_level_code_of lines body =
     free_lines lines (get_occupied_lines (classes_of body @ functions_of body))"

definition main_of :: "string list \<Rightarrow> stmt list \<Rightarrow> string" where
  "main_of lines body =
     (let deps = analyze_dependencies body (map fst (classes_of body)) (map fst (functions_of body))
      in main_content (get_imports body) (fst (snd (snd deps))) (snd (snd (snd deps)))
           (top_level_code_of lines body))"

definition init_of :: "stmt list \<Rightarrow> config option \<Rightarrow> string" where
  "init_of body cfg = init_content cfg (map fst (classes_of body)) (map fst (functions_of body))"

definition interface_of :: "string \<Rightarrow> stmt list \<Rightarrow> config option \<Rightarrow> string" where
  "interface_of base body cfg =
     create_interface_file base (map fst (classes_of body)) (map fst (functions_of body)) cfg"

definition split_parsed :: "string list \<Rightarrow> stmt list \<Rightarrow> string \<Rightarrow> bool \<Rightarrow> config option \<Rightarrow> run" where
  "split_parsed lines body base backup_exists cfg =
     (let planned = units_of lines body cfg;
          first = (if backup_exists then [] else [Copy_backup])
                  @ [Makedirs, Write_unit (base @ ''.py'') (residual_of lines body cfg)]
                  @ emit_units (fst planned)
      in case snd planned of
           Some err \<Rightarrow> \<lparr>events = first, outcome = Raised err\<rparr>
         | None \<Rightarrow>
             \<lparr>events = first
                @ (if top_level_code_of lines body \<noteq> []
                   then [Write_unit ''main.py'' (main_of lines body)]
                   else [])
                @ [Write_unit ''__init__.py'' (init_of body cfg),
                   Write_interface (interface_of base body cfg)],
              outcome = Emitted\<rparr>)"

definition write_split_files :: "source \<Rightarrow> string \<Rightarrow> bool \<Rightarrow> config_input \<Rightarrow> run" where
  "write_split_files src base backup_exists cfg_in =
     (case cfg_in of
        Config_unreadable \<Rightarrow> \<lparr>events = [], outcome = Config_error\<rparr>
      | No_config_path \<Rightarrow>
          (case parse_script src of
             Inl e \<Rightarrow> \<lparr>events = [], outcome = Syntax_abort e\<rparr>
           | Inr (lines, body) \<Rightarrow> split_parsed lines body base backup_exists None)
      | Config_loaded c \<Rightarrow>
          (case parse_script src of
             Inl e \<Rightarrow> \<lparr>events = [], outcome = Syntax_abort e\<rparr>
           | Inr (lines, body) \<Rightarrow> split_parsed lines body base backup_exists (Some c)))"

section \<open>Names written, names kept\<close>




definition residual_members_of :: "stmt list \<Rightarrow> config option \<Rightarrow> decl list" where
  "residual_members_of body cfg =
     residual_members cfg (classes_of body) (functions_of body)
       (map fst (classes_of body)) (map fst (functions_of body))"






text \<open>Every unit of the list is the unit of one class: its name is the class's name, its one member the class.\<close>

definition one_class_each :: "stmt list \<Rightarrow> partition_unit list \<Rightarrow> bool" where
  "one_class_each body us =
     list_all (\<lambda>u. list_ex (\<lambda>c. unit_name u = fst c \<and> members u = [c]) (classes_of body)) us"


section \<open>The validation pipeline\<close>



subsection \<open>Stage 1: syntax\<close>




subsection \<open>Stage 2: imports in a sandbox\<close>

text \<open>
  \<open>_create_test_version_with_fixed_imports\<close> copies the folder and rewrites every
  \<open>.py\<close> file line by line. \<open>content.split('\n')\<close> is \<open>split_nl\<close>.
\<close>

fun split_nl :: "string \<Rightarrow> string list" where
  "split_nl [] = [[]]"
| "split_nl (c # cs) =
     (if c = CHR 0x0A then [] # split_nl cs
      else (case split_nl cs of [] \<Rightarrow> [[c]] | l # ls \<Rightarrow> (c # l) # ls))"






text \<open>
  The process state the stage touches: \<open>sys.path\<close>, the keys and values of
  \<open>sys.modules\<close>, and the temporary directories that exist.
\<close>

record 'm py_state =
  sys_path :: "string list"
  sys_modules :: "string \<rightharpoonup> 'm"
  temp_dirs :: "string set"

text \<open>
  What loading a module does is the host runtime's business. \<open>exec_module\<close> runs the
  module's code: it ends normally, raises \<open>ImportError\<close>, or raises another exception,
  and the code it runs may register further modules in \<open>sys.modules\<close> (every import
  statement of the module does). The environment of a run gives the name of the fresh
  temporary directory, whether building the sandbox copy raises (otherwise the file
  names \<open>os.listdir\<close> gives for it), whether a module spec with a loader is found for a
  file, the module object \<open>module_from_spec\<close> creates, and \<open>exec_module\<close>.
\<close>

datatype load_outcome = Loaded | Raises_ImportError string | Raises_other string

record 'm import_env =
  temp_dir :: string
  sandbox :: "string + string list"
  spec_found :: "string \<Rightarrow> bool"
  module_from_spec :: "string \<Rightarrow> 'm"
  exec_module :: "string \<Rightarrow> (string \<rightharpoonup> 'm) \<Rightarrow> load_outcome \<times> (string \<rightharpoonup> 'm)"

record import_results =
  all_imports_successful :: bool
  successful_imports :: "string list"
  failed_imports :: "string list"
  im_errors :: "string list"
  im_warnings :: "string list"

text \<open>Loading the package initializer: every exception is caught by one handler.\<close>

definition import_init ::
  "'m import_env \<Rightarrow> string \<Rightarrow> import_results \<times> (string \<rightharpoonup> 'm) \<Rightarrow> import_results \<times> (string \<rightharpoonup> 'm)" where
  "import_init env base_name rm =
     (let r = fst rm; mods = snd rm in
      if spec_found env ''__init__.py'' then
        (let res = exec_module env ''__init__.py'' mods;
             failed = (\<lambda>error_msg.
               if contains (lower error_msg) ''relative import''
               then r\<lparr>im_warnings := im_warnings r
                        @ [''Expected relative import issue in __init__.py: '' @ error_msg]\<rparr>
               else r\<lparr>all_imports_successful := False,
                       failed_imports := failed_imports r @ [''__init__.py''],
                       im_errors := im_errors r @ [''Failed to import main package: '' @ error_msg]\<rparr>)
         in case fst res of
              Loaded \<Rightarrow> (r\<lparr>successful_imports := successful_imports r @ [''__init__.py'']\<rparr>, snd res)
            | Raises_ImportError error_msg \<Rightarrow> (failed error_msg, snd res)
            | Raises_other error_msg \<Rightarrow> (failed error_msg, snd res))
      else (r\<lparr>im_warnings := im_warnings r @ [''Could not create module spec for __init__.py'']\<rparr>, mods))"

text \<open>
  Loading one file of the sandbox. The stage registers the new module under
  \<open>base_name.module_name\<close> before it runs it. \<open>ImportError\<close> has its own handler, which
  only records a warning.
\<close>

definition import_file ::
  "'m import_env \<Rightarrow> string \<Rightarrow> string \<Rightarrow> import_results \<times> (string \<rightharpoonup> 'm) \<Rightarrow> import_results \<times> (string \<rightharpoonup> 'm)" where
  "import_file env base_name file_name rm =
     (let r = fst rm; mods = snd rm in
      if endswith file_name ''.py'' \<and> file_name \<noteq> ''__init__.py'' then
        (let module_name = take (length file_name - 3) file_name;
             full_name = base_name @ ''.'' @ module_name
         in if spec_found env file_name then
              (let res = exec_module env file_name (mods(full_name \<mapsto> module_from_spec env full_name))
               in case fst res of
                    Loaded \<Rightarrow> (r\<lparr>successful_imports := successful_imports r @ [file_name]\<rparr>, snd res)
                  | Raises_ImportError e \<Rightarrow>
                      (r\<lparr>im_warnings := im_warnings r
                          @ [if contains (lower e) ''relative import''
                             then ''Expected relative import issue in '' @ file_name @ '': '' @ e
                             else ''Import warning for '' @ file_name @ '': '' @ e]\<rparr>, snd res)
                  | Raises_other e \<Rightarrow>
                      (r\<lparr>all_imports_successful := False,
                         failed_imports := failed_imports r @ [file_name],
                         im_errors := im_errors r @ [''Failed to import '' @ file_name @ '': '' @ e]\<rparr>,
                       snd res))
            else (r\<lparr>im_warnings := im_warnings r @ [''Could not create module spec for '' @ file_name]\<rparr>,
                  mods))
      else (r, mods))"

text \<open>The \<open>try\<close> block: the initializer, then every file of the sandbox.\<close>

definition import_tests ::
  "'m import_env \<Rightarrow> string \<Rightarrow> string list \<Rightarrow> (string \<rightharpoonup> 'm) \<Rightarrow> import_results \<times> (string \<rightharpoonup> 'm)" where
  "import_tests env base_name files mods =
     fold (import_file env base_name) files
       (import_init env base_name
          (\<lparr>all_imports_successful = True, successful_imports = [], failed_imports = [],
            im_errors = [], im_warnings = []\<rparr>, mods))"

text \<open>The \<open>finally\<close> block on \<open>sys.modules\<close>: every key that starts with the base name is deleted.\<close>

definition cleanup_modules :: "string \<Rightarrow> (string \<rightharpoonup> 'm) \<Rightarrow> (string \<rightharpoonup> 'm)" where
  "cleanup_modules base_name mods = (\<lambda>n. if startswith n base_name then None else mods n)"

text \<open>
  \<open>_validate_imports\<close>. The temporary directory exists from the start of the \<open>with\<close>
  block to its end. When building the sandbox raises, the handler of the outer \<open>try\<close>
  records the error; \<open>sys.path\<close> and \<open>sys.modules\<close> have not been touched then.
\<close>

definition validate_imports :: "'m import_env \<Rightarrow> string \<Rightarrow> 'm py_state \<Rightarrow> import_results \<times> 'm py_state" where
  "validate_imports env base_name st =
     (case sandbox env of
        Inl e \<Rightarrow>
          (\<lparr>all_imports_successful = False, successful_imports = [], failed_imports = [],
            im_errors = [''Error setting up import test environment: '' @ e], im_warnings = []\<rparr>,
           st\<lparr>temp_dirs := insert (temp_dir env) (temp_dirs st) - {temp_dir env}\<rparr>)
      | Inr files \<Rightarrow>
          (let path1 = (if temp_dir env \<notin> set (sys_path st) then temp_dir env # sys_path st
                        else sys_path st);
               tested = import_tests env base_name files (sys_modules st)
           in (fst tested,
               \<lparr>sys_path = remove1 (temp_dir env) path1,
                sys_modules = cleanup_modules base_name (snd tested),
                temp_dirs = insert (temp_dir env) (temp_dirs st) - {temp_dir env}\<rparr>)))"

subsection \<open>Stage 3: structural comparison\<close>













subsection \<open>The report\<close>




section \<open>Example inputs\<close>

text \<open>
  A module with an import, three classes (the second reads the first class and the
  function) and a function, and a configuration that lists two of the classes.
\<close>

definition mk_stmt :: "stmt_kind \<Rightarrow> string \<Rightarrow> nat \<Rightarrow> nat \<Rightarrow> string list \<Rightarrow> stmt" where
  "mk_stmt k n start en used =
     \<lparr>kind = k, name = n, lineno = start, end_lineno = Some en, decorator_list = [],
      used_names = used, unparse = [], str_const = None\<rparr>"








text \<open>A module with a docstring and one class, and a module with an \<open>async def\<close>.\<close>

definition doc_lines :: "string list" where
  "doc_lines = [dq3 @ ''doc'' @ dq3, ''class A:'', ''    pass'']"

definition doc_body :: "stmt list" where
  "doc_body = [(mk_stmt Other [] 1 1 []) \<lparr>str_const := Some ''doc''\<rparr>, mk_stmt ClassDef ''A'' 2 3 []]"






text \<open>
  A process state and two environments. In the first, the package initializer cannot
  be loaded because a module it imports needs an external module that is not
  installed. In the second, loading \<open>A.py\<close> runs \<open>import json\<close>, which registers the
  module \<open>json\<close>.
\<close>

definition st0 :: "nat py_state" where
  "st0 = \<lparr>sys_path = [''/usr/lib/python3''], sys_modules = [''os'' \<mapsto> 1, ''mathlib'' \<mapsto> 2],
          temp_dirs = {}\<rparr>"


definition json_env :: "nat import_env" where
  "json_env =
     \<lparr>temp_dir = ''/tmp/tmpabc'',
      sandbox = Inr [''__init__.py'', ''A.py''],
      spec_found = (\<lambda>f. True),
      module_from_spec = (\<lambda>n. 7),
      exec_module = (\<lambda>f mods. (Loaded, if f = ''A.py'' then mods(''json'' \<mapsto> 8) else mods))\<rparr>"

section \<open>Facts about the extractor and the emitter\<close>

lemma fold_class_used_dom:
  "dom (fold (\<lambda>s m. if kind s = ClassDef then m(name s \<mapsto> f s) else m) body m0)
     = dom m0 \<union> name ` {s \<in> set body. kind s = ClassDef}"
  by (induction body arbitrary: m0) auto

lemma class_used_dom:
  "dom (class_used_of body cn fn) = name ` {s \<in> set body. kind s = ClassDef}"
  by (simp add: class_used_of_def fold_class_used_dom)

lemma classes_have_buckets:
  "\<forall>d \<in> set (classes_of body). class_used_of body cn fn (fst d) \<noteq> None"
proof
  fix d assume "d \<in> set (classes_of body)"
  then obtain s where "s \<in> set body" "kind s = ClassDef" "fst d = name s"
    by (auto simp: classes_of_def find_top_level_defs_def)
  then have "fst d \<in> dom (class_used_of body cn fn)"
    by (auto simp: class_used_dom)
  then show "class_used_of body cn fn (fst d) \<noteq> None"
    by auto
qed

lemma class_units_no_error:
  "\<forall>d \<in> set ds. cu (fst d) \<noteq> None \<Longrightarrow> snd (class_units im ls cu ds) = None"
  by (induction im ls cu ds rule: class_units.induct) (auto split: option.splits simp: Let_def)










lemma default_units:
  assumes "\<not> config_on cfg"
  shows "units_of lines body cfg =
     (fst (class_units (get_imports body) lines
        (class_used_of body (map fst (classes_of body)) (map fst (functions_of body)))
        (classes_of body))
      @ (if functions_of body \<noteq> []
         then [functions_unit (get_imports body) lines
                 (func_used_classes_of body (map fst (classes_of body))) (functions_of body)]
         else []), None)"
proof -
  have "snd (class_units (get_imports body) lines
        (class_used_of body (map fst (classes_of body)) (map fst (functions_of body)))
        (classes_of body)) = None"
    by (rule class_units_no_error) (rule classes_have_buckets)
  then show ?thesis
    using assms
    by (cases "class_units (get_imports body) lines
        (class_used_of body (map fst (classes_of body)) (map fst (functions_of body)))
        (classes_of body)")
       (simp add: units_of_def plan_units_def analyze_dependencies_def Let_def)
qed












section \<open>The partition of the declared names\<close>




section \<open>Declarations that the configuration does not name\<close>







section \<open>The imports of a class unit\<close>











section \<open>The events of a run\<close>



text \<open>
  C7. When the parse of the input fails with a syntax error, \<open>write_split_files\<close>
  returns before any effect on the file system: no backup, no folder, no file. The run
  ends with the parser's diagnostic (or, when a configuration path was given and the
  configuration could not be read, with that diagnostic, which comes first).
\<close>

theorem syntax_error_writes_nothing:
  assumes "ast_parse src = SyntaxError e"
  shows "events (write_split_files src base bk cfg_in) = []
     \<and> outcome (write_split_files src base bk cfg_in)
         = (if cfg_in = Config_unreadable then Config_error else Syntax_abort e)"
  using assms by (cases cfg_in) (simp_all add: write_split_files_def parse_script_def)

theorem syntax_error_writes_nothing_witness:
  "events (write_split_files \<lparr>code_lines = [''def f(:''], ast_parse = SyntaxError ''invalid syntax''\<rparr>
             ''m'' False No_config_path) = []
   \<and> outcome (write_split_files \<lparr>code_lines = [''def f(:''], ast_parse = SyntaxError ''invalid syntax''\<rparr>
             ''m'' False No_config_path) = Syntax_abort ''invalid syntax''"
  using syntax_error_writes_nothing[of "\<lparr>code_lines = [''def f(:''], ast_parse = SyntaxError ''invalid syntax''\<rparr>"
          "''invalid syntax''" "''m''" False No_config_path]
  by simp

section \<open>The residual file in default mode\<close>

lemma class_units_shape:
  "u \<in> set (fst (class_units im ls cu ds)) \<Longrightarrow> \<exists>c. c \<in> set ds \<and> unit_name u = fst c \<and> members u = [c]"
proof (induction im ls cu ds rule: class_units.induct)
  case (1 im ls cu)
  then show ?case by simp
next
  case (2 im ls cu cname start en ds)
  show ?case
  proof (cases en)
    case None
    then show ?thesis using 2 by auto
  next
    case (Some e)
    show ?thesis
    proof (cases "cu cname")
      case None
      then show ?thesis using "2.prems" Some by simp
    next
      case b: (Some b)
      from "2.prems" Some b
      have "u = \<lparr>unit_name = cname, members = [(cname, start, en)],
                   content = class_unit_content im ls b start e\<rparr>
            \<or> u \<in> set (fst (class_units im ls cu ds))"
        by (simp add: Let_def)
      then show ?thesis
      proof
        assume "u = \<lparr>unit_name = cname, members = [(cname, start, en)],
                   content = class_unit_content im ls b start e\<rparr>"
        then show ?thesis by simp
      next
        assume "u \<in> set (fst (class_units im ls cu ds))"
        then show ?thesis using "2.IH"(2)[OF Some b] by auto
      qed
    qed
  qed
qed

text \<open>
  C8 (as amended). In default mode no declaration remains in the residual file. When
  the module has a docstring, the residual file is: the docstring (its value between
  three double quotes), an empty line, the original imports followed by an empty line
  (when there are imports), one relative import line per class and, when the module
  has functions, one import line for the functions unit. When the module has no
  functions, every unit written is the unit of one class: no functions unit is
  emitted.
\<close>

theorem default_residual_text:
  assumes off: "\<not> config_on cfg"
    and doc: "extract_module_docstring body = Some d"
  shows "residual_members_of body cfg = []
     \<and> residual_of lines body cfg
         = join NL
             ([d, []]
              @ (if get_imports body \<noteq> [] then get_imports body @ [[]] else [])
              @ map (\<lambda>c. ''from .'' @ c @ '' import '' @ c) (map fst (classes_of body))
              @ (if functions_of body \<noteq> []
                 then [''from .functions import '' @ join '', '' (map fst (functions_of body))]
                 else []))
           @ NL
     \<and> (functions_of body = [] \<longrightarrow> one_class_each body (fst (units_of lines body cfg)))"
proof -
  have rc: "remaining (split_classes_of cfg (map fst (classes_of body))) (classes_of body) = []"
    using off by (force simp: remaining_def split_classes_of_def filter_empty_conv)
  have rf: "remaining (split_functions_of cfg (map fst (functions_of body))) (functions_of body) = []"
    using off by (force simp: remaining_def split_functions_of_def filter_empty_conv)
  have m: "residual_members_of body cfg = []"
    by (simp add: residual_members_of_def residual_members_def rc rf)
  have t: "residual_of lines body cfg
         = join NL
             ([d, []]
              @ (if get_imports body \<noteq> [] then get_imports body @ [[]] else [])
              @ map (\<lambda>c. ''from .'' @ c @ '' import '' @ c) (map fst (classes_of body))
              @ (if functions_of body \<noteq> []
                 then [''from .functions import '' @ join '', '' (map fst (functions_of body))]
                 else []))
           @ NL"
    using off doc by (simp add: residual_of_def create_shrunk_original_def rc rf minimal_parts_def)
  have u: "one_class_each body (fst (units_of lines body cfg))" if "functions_of body = []"
    unfolding one_class_each_def list_all_iff list_ex_iff
    using that class_units_shape by (fastforce simp: default_units[OF off])
  show ?thesis using m t u by blast
qed

theorem default_residual_text_witness:
  "residual_of doc_lines doc_body None = join NL [dq3 @ ''doc'' @ dq3, [], ''from .A import A'', []]
   \<and> one_class_each doc_body (fst (units_of doc_lines doc_body None))
   \<and> map unit_name (fst (units_of doc_lines doc_body None)) = [''A'']"
proof -
  have off: "\<not> config_on None" by code_simp
  have doc: "extract_module_docstring doc_body = Some (dq3 @ ''doc'' @ dq3)" by code_simp
  have f: "functions_of doc_body = []" by code_simp
  have i: "get_imports doc_body = []" by code_simp
  have c: "map fst (classes_of doc_body) = [''A'']" by code_simp
  have n: "map unit_name (fst (units_of doc_lines doc_body None)) = [''A'']" by code_simp
  from default_residual_text[OF off doc, of doc_lines] show ?thesis
    using n by (simp add: f i c)
qed

text \<open>
  The claim as stated has the docstring as the only content of the residual file; for
  a module with a docstring and one class the file also holds the line that imports
  the class back.
\<close>

theorem default_residual_counterexample:
  "\<not> config_on None
   \<and> extract_module_docstring doc_body = Some (dq3 @ ''doc'' @ dq3)
   \<and> residual_members_of doc_body None = []
   \<and> residual_of doc_lines doc_body None = join NL [dq3 @ ''doc'' @ dq3, [], ''from .A import A'', []]
   \<and> strip (residual_of doc_lines doc_body None) \<noteq> dq3 @ ''doc'' @ dq3"
  by code_simp

section \<open>Asynchronous function definitions\<close>












section \<open>The structural stage and the report\<close>










section \<open>The sandbox copy\<close>

lemma split_nl_nonempty: "split_nl s \<noteq> []"
  by (induction s) (auto split: list.splits)

lemma join_cons: "ls \<noteq> [] \<Longrightarrow> join sep (l # ls) = l @ sep @ join sep ls"
  by (cases ls) simp_all

lemma join_split_nl: "join NL (split_nl s) = s"
proof (induction s)
  case Nil
  then show ?case by simp
next
  case (Cons c s)
  show ?case
  proof (cases "c = CHR 0x0A")
    case True
    then show ?thesis using Cons split_nl_nonempty[of s] by (simp add: join_cons NL_def)
  next
    case False
    obtain l ls where sp: "split_nl s = l # ls"
      using split_nl_nonempty[of s] by (cases "split_nl s") auto
    have "join NL ((c # l) # ls) = c # join NL (l # ls)"
      by (cases ls) simp_all
    then show ?thesis using False sp Cons by simp
  qed
qed











section \<open>The clean-up of the import stage\<close>

lemma cleaned_prefix: "startswith n base_name \<Longrightarrow> cleanup_modules base_name mods n = None"
  by (simp add: cleanup_modules_def)

lemma cleaned_other: "\<not> startswith n base_name \<Longrightarrow> cleanup_modules base_name mods n = mods n"
  by (simp add: cleanup_modules_def)




text \<open>
  C10. When the sandbox was built, the \<open>finally\<close> block leaves \<open>sys.modules\<close> as the
  tests left it, minus every key that starts with the package base name: such a key is
  gone whether the stage registered it or it was there before the stage began, and
  every other key keeps its module. So a module that was registered before the stage
  and merely shares the prefix (\<open>mathlib\<close> for the base name \<open>math\<close>) is deregistered.
\<close>

theorem cleanup_deletes_by_prefix:
  assumes "sandbox env = Inr files"
    and "st' = snd (validate_imports env base_name st)"
  shows "sys_modules st' = cleanup_modules base_name (snd (import_tests env base_name files (sys_modules st)))
     \<and> (\<forall>n. startswith n base_name \<longrightarrow> sys_modules st' n = None)
     \<and> (\<forall>n m. startswith n base_name \<and> sys_modules st n = Some m \<longrightarrow> sys_modules st' n = None)
     \<and> (\<forall>n. \<not> startswith n base_name \<longrightarrow>
           sys_modules st' n = snd (import_tests env base_name files (sys_modules st)) n)
     \<and> (\<forall>n. \<not> startswith n base_name \<longrightarrow> cleanup_modules base_name (sys_modules st) n = sys_modules st n)"
proof -
  have s: "sys_modules st' = cleanup_modules base_name (snd (import_tests env base_name files (sys_modules st)))"
    using assms by (simp add: validate_imports_def Let_def)
  show ?thesis
    unfolding s by (simp add: cleaned_prefix cleaned_other)
qed

theorem cleanup_deletes_by_prefix_witness:
  "sys_modules st0 ''mathlib'' = Some 2
   \<and> startswith ''mathlib'' ''math''
   \<and> sys_modules (snd (validate_imports json_env ''math'' st0)) ''mathlib'' = None
   \<and> sys_modules (snd (validate_imports json_env ''math'' st0)) ''os'' = Some 1"
proof -
  have sb: "sandbox json_env = Inr [''__init__.py'', ''A.py'']" by (simp add: json_env_def)
  have a: "sys_modules st0 ''mathlib'' = Some 2" by (simp add: st0_def)
  have b: "startswith ''mathlib'' ''math''" by code_simp
  have c: "\<not> startswith ''os'' ''math''" by code_simp
  have d: "snd (import_tests json_env ''math'' [''__init__.py'', ''A.py''] (sys_modules st0)) ''os'' = Some 1"
    by code_simp
  note inst = cleanup_deletes_by_prefix[OF sb refl, of "''math''" st0]
  from inst a b have 1: "sys_modules (snd (validate_imports json_env ''math'' st0)) ''mathlib'' = None"
    by blast
  from inst c have "sys_modules (snd (validate_imports json_env ''math'' st0)) ''os''
      = snd (import_tests json_env ''math'' [''__init__.py'', ''A.py''] (sys_modules st0)) ''os''"
    by blast
  then have 2: "sys_modules (snd (validate_imports json_env ''math'' st0)) ''os'' = Some 1"
    using d by simp
  show ?thesis using a b 1 2 by simp
qed

end
